theory Spec2Isabelle
  imports Main
begin

section \<open>Python strings\<close>

text \<open>
  The source is Python 3: a \<open>str\<close> is a sequence of code points. Isabelle's \<open>char\<close> has
  eight bits, so the model covers the code points below 256 (Latin-1), which include every
  character of the file contents, paths and messages the source names.
\<close>

definition is_linebreak :: "char \<Rightarrow> bool" where
  \<comment> \<open>the line boundaries of \<open>str.splitlines\<close> below 256: LF, VT, FF, CR, FS, GS, RS, NEL\<close>
  "is_linebreak c \<longleftrightarrow>
     c \<in> set [CHR 0x0A, CHR 0x0B, CHR 0x0C, CHR 0x0D, CHR 0x1C, CHR 0x1D, CHR 0x1E, CHR 0x85]"

definition isspace :: "char \<Rightarrow> bool" where
  \<comment> \<open>\<open>str.isspace\<close> below 256: what \<open>str.strip()\<close> removes\<close>
  "isspace c \<longleftrightarrow>
     c \<in> set [CHR 0x09, CHR 0x0A, CHR 0x0B, CHR 0x0C, CHR 0x0D, CHR 0x1C, CHR 0x1D, CHR 0x1E,
              CHR 0x1F, CHR 0x20, CHR 0x85, CHR 0xA0]"

fun splitlines_from :: "string \<Rightarrow> string \<Rightarrow> string list" where
  \<comment> \<open>first argument: the current line so far, reversed\<close>
  "splitlines_from cur [] = (if cur = [] then [] else [rev cur])"
| "splitlines_from cur (c # cs) =
     (if c = CHR 0x0D then
        (case cs of
           [] \<Rightarrow> [rev cur]
         | d # ds \<Rightarrow> if d = CHR 0x0A then rev cur # splitlines_from [] ds
                     else rev cur # splitlines_from [] (d # ds))
      else if is_linebreak c then rev cur # splitlines_from [] cs
      else splitlines_from (c # cur) cs)"

definition splitlines :: "string \<Rightarrow> string list" where
  \<comment> \<open>\<open>str.splitlines()\<close>: no line for the empty string, none after a final line break;
      CR LF is one break\<close>
  "splitlines s = splitlines_from [] s"

definition strip :: "string \<Rightarrow> string" where
  \<comment> \<open>\<open>str.strip()\<close>\<close>
  "strip s = rev (dropWhile isspace (rev (dropWhile isspace s)))"

definition startswith :: "string \<Rightarrow> string \<Rightarrow> bool" where
  \<comment> \<open>\<open>s.startswith(p)\<close>\<close>
  "startswith s p \<longleftrightarrow> take (length p) s = p"

fun join :: "string \<Rightarrow> string list \<Rightarrow> string" where
  \<comment> \<open>\<open>sep.join(xs)\<close>\<close>
  "join sep [] = []"
| "join sep [x] = x"
| "join sep (x # y # ys) = x @ sep @ join sep (y # ys)"

fun split_on :: "char \<Rightarrow> string \<Rightarrow> string list" where
  \<comment> \<open>\<open>s.split(c)\<close> for a one-character separator: always at least one component\<close>
  "split_on c [] = [[]]"
| "split_on c (x # xs) =
     (if x = c then [] # split_on c xs
      else (case split_on c xs of [] \<Rightarrow> [[x]] | h # t \<Rightarrow> (x # h) # t))"

definition truthy :: "string option \<Rightarrow> bool" where
  \<comment> \<open>the truth value of a variable holding \<open>None\<close> or a \<open>str\<close>\<close>
  "truthy v \<longleftrightarrow> (case v of None \<Rightarrow> False | Some s \<Rightarrow> s \<noteq> [])"

section \<open>Paths\<close>

definition sep :: string where
  \<comment> \<open>\<open>os.path.sep\<close> on the POSIX host the installer runs on\<close>
  "sep = ''/''"

definition normpath_step :: "nat \<Rightarrow> string list \<Rightarrow> string \<Rightarrow> string list" where
  \<comment> \<open>one iteration of the component loop of \<open>posixpath.normpath\<close>\<close>
  "normpath_step initial_slashes new_comps cmp =
     (if cmp = [] \<or> cmp = ''.'' then new_comps
      else if cmp \<noteq> ''..'' \<or> (initial_slashes = 0 \<and> new_comps = [])
              \<or> (new_comps \<noteq> [] \<and> last new_comps = ''..'')
        then new_comps @ [cmp]
      else if new_comps \<noteq> [] then butlast new_comps
      else new_comps)"

definition normpath :: "string \<Rightarrow> string" where
  \<comment> \<open>\<open>os.path.normpath\<close> (posixpath)\<close>
  "normpath path =
     (if path = [] then ''.''
      else
        let initial_slashes =
              (if startswith path ''/'' then
                 (if startswith path ''//'' \<and> \<not> startswith path ''///'' then 2 else 1)
               else 0);
            comps = foldl (normpath_step initial_slashes) [] (split_on CHR ''/'' path);
            p = replicate initial_slashes CHR ''/'' @ join ''/'' comps
        in if p = [] then ''.'' else p)"

section \<open>The target filesystem, the log and the standard error stream\<close>

datatype node =
    Regular string nat   \<comment> \<open>a readable regular file: its content and its mode bits\<close>
  | Dir                  \<comment> \<open>a path that exists but cannot be opened as a file\<close>

datatype exn =
    Exception string            \<comment> \<open>\<open>raise Exception(msg)\<close>\<close>
  | ValueError string string    \<comment> \<open>\<open>raise ValueError(fmt, arg)\<close>\<close>
  | UnboundLocalError string    \<comment> \<open>reading a local variable that no branch assigned\<close>
  | KeyError string             \<comment> \<open>subscripting a dict at a missing key\<close>
  | OSError string              \<comment> \<open>a failed filesystem operation on the path\<close>
  | External string             \<comment> \<open>any \<open>Exception\<close> raised by a collaborator outside these sources\<close>

datatype level = DEBUG | INFO | WARN | ERROR

datatype log_obj =
    Str string
  | Lines "string list"
  | Num int
  | Dict "string \<rightharpoonup> int"

type_synonym log_record = "level \<times> log_obj \<times> log_obj list"
  \<comment> \<open>a call \<open>LOG.level(msg, *args)\<close>: the logger keeps message and arguments as passed\<close>

record world =
  files :: "string \<rightharpoonup> node"
  log :: "log_record list"
  stderr :: string

definition LOG :: "level \<Rightarrow> log_obj \<Rightarrow> log_obj list \<Rightarrow> world \<Rightarrow> world" where
  "LOG lv msg args w = w\<lparr>log := log w @ [(lv, msg, args)]\<rparr>"

definition stderr_write :: "string \<Rightarrow> world \<Rightarrow> world" where
  "stderr_write s w = w\<lparr>stderr := stderr w @ s\<rparr>"

definition path_exists :: "world \<Rightarrow> string \<Rightarrow> bool" where
  \<comment> \<open>\<open>os.path.exists\<close>\<close>
  "path_exists w p \<longleftrightarrow> files w p \<noteq> None"

text \<open>
  Modelled from the spec: \<open>curtin.util\<close> (\<open>load_file\<close>, \<open>del_file\<close>, \<open>write_file\<close>) is not
  among the sources. The spec has the reconciler "attempt to read the file", where a read
  may fail; "remove the file"; and "write text as the new file content (no executable bit)",
  while hooks are "unconditional overwrites" that "set the executable mode bits" and may fail
  with a write error. A path occupied by something that is not a regular file is the
  failure case of all three.
\<close>

definition load_file :: "string \<Rightarrow> world \<Rightarrow> exn + string" where
  "load_file p w =
     (case files w p of
        Some (Regular content m) \<Rightarrow> Inr content
      | _ \<Rightarrow> Inl (OSError p))"

definition del_file :: "string \<Rightarrow> world \<Rightarrow> exn + world" where
  "del_file p w =
     (case files w p of
        Some Dir \<Rightarrow> Inl (OSError p)
      | _ \<Rightarrow> Inr (w\<lparr>files := (files w)(p := None)\<rparr>))"

definition default_mode :: nat where
  \<comment> \<open>octal 644: no executable bit\<close>
  "default_mode = 420"

definition write_file :: "string \<Rightarrow> string \<Rightarrow> nat \<Rightarrow> world \<Rightarrow> exn + world" where
  "write_file p content m w =
     (case files w p of
        Some Dir \<Rightarrow> Inl (OSError p)
      | _ \<Rightarrow> Inr (w\<lparr>files := (files w)(p \<mapsto> Regular content m)\<rparr>))"

section \<open>Reconciling the two legacy artifacts\<close>

text \<open>
  Both functions return \<open>None\<close> in the source; what they decided is visible in the target
  filesystem and in the log record of the branch taken. An identifier cannot begin with an
  underscore here, so \<open>_maybe_remove_legacy_eth0\<close> and its siblings lose theirs.
\<close>

definition quote :: string where
  \<comment> \<open>the character \<open>'\<close>\<close>
  "quote = [CHR 0x27]"

definition eth0_known_contents :: "string list" where
  "eth0_known_contents = [''auto eth0'', ''iface eth0 inet dhcp'']"

definition ipv6_known_contents :: "string list" where
  "ipv6_known_contents =
     [''net.ipv6.conf.all.use_tempaddr = 2'', ''net.ipv6.conf.default.use_tempaddr = 2'']"

definition curtin_contents :: string where
  "curtin_contents = join ''\<newline>''
     [''# IPv6 Privacy Extensions (RFC 4941)'',
      ''# Disabled by curtin'',
      ''# net.ipv6.conf.all.use_tempaddr = 2'',
      ''# net.ipv6.conf.default.use_tempaddr = 2'']"

definition content_lines :: "string \<Rightarrow> string list" where
  \<comment> \<open>\<open>[f.strip() for f in contents.splitlines() if not f.startswith("#")]\<close>\<close>
  "content_lines contents =
     map strip (filter (\<lambda>f. \<not> startswith f ''#'') (splitlines contents))"

definition eth0_default_path :: string where
  "eth0_default_path = ''etc/network/interfaces.d/eth0.cfg''"

definition ipv6_default_path :: string where
  "ipv6_default_path = ''etc/sysctl.d/10-ipv6-privacy.conf''"

definition removed_msg :: "string \<Rightarrow> string" where
  "removed_msg cfg = ''removed '' @ cfg @ '' with known contents''"

definition user_configured_msg :: "string \<Rightarrow> string \<Rightarrow> string" where
  "user_configured_msg bmsg cfg =
     bmsg @ '' '' @ quote @ cfg @ quote @ '' exists with user configured content.''"

definition could_not_be_read_msg :: "string \<Rightarrow> string \<Rightarrow> string" where
  "could_not_be_read_msg bmsg cfg = bmsg @ '' '' @ cfg @ '' exists, but could not be read.''"

definition eth0_bmsg :: string where
  "eth0_bmsg = ''Dynamic networking config may not apply.''"

definition ipv6_bmsg :: string where
  "ipv6_bmsg = ''Disabling IPv6 privacy extensions config may not apply.''"

definition maybe_remove_legacy_eth0 :: "string \<Rightarrow> string \<Rightarrow> world \<Rightarrow> world" where
  "maybe_remove_legacy_eth0 target path w =
     (let cfg = normpath (join sep [target, path]) in
      if \<not> path_exists w cfg then LOG WARN (Str ''Failed to find legacy conf file %s'') [Str cfg] w
      else
        \<comment> \<open>\<open>try: ... except:\<close> every failure inside ends in \<open>LOG.exception(msg); return\<close>\<close>
        let unreadable = (\<lambda>w'. LOG ERROR (Str (could_not_be_read_msg eth0_bmsg cfg)) [] w') in
        (case load_file cfg w of
           Inl e \<Rightarrow> unreadable w
         | Inr contents \<Rightarrow>
             if content_lines contents = eth0_known_contents then
               (case del_file cfg w of
                  Inl e \<Rightarrow> unreadable w
                | Inr w1 \<Rightarrow> LOG WARN (Str (removed_msg cfg)) [] w1)
             else LOG WARN (Str (user_configured_msg eth0_bmsg cfg)) [] w))"

definition disable_ipv6_privacy_extensions ::
    "string \<Rightarrow> string \<Rightarrow> world \<Rightarrow> (exn + unit) \<times> world" where
  "disable_ipv6_privacy_extensions target path w =
     (if startswith path ''/'' then
        (Inl (ValueError (''path parameter must not start with '' @ quote @ ''/'' @ quote
                            @ '': %s'') path), w)
      else
        let cfg = normpath (join sep [target, path]) in
        if \<not> path_exists w cfg then
          (Inr (), LOG WARN (Str ''Failed to find legacy conf file %s'') [Str cfg] w)
        else
          let unreadable = (\<lambda>w'. LOG ERROR (Str (could_not_be_read_msg ipv6_bmsg cfg)) [] w') in
          (case load_file cfg w of
             Inl e \<Rightarrow> (Inr (), unreadable w)
           | Inr contents \<Rightarrow>
               if content_lines contents = ipv6_known_contents then
                 let w1 = LOG INFO (Str ''deleting file: %s'') [Str cfg] w in
                 (case del_file cfg w1 of
                    Inl e \<Rightarrow> (Inr (), unreadable w1)
                  | Inr w2 \<Rightarrow>
                      (case write_file cfg curtin_contents default_mode w2 of
                         Inl e \<Rightarrow> (Inr (), unreadable w2)
                       | Inr w3 \<Rightarrow> (Inr (), w3)))
               else
                 (Inr (),
                  LOG INFO (Lines ipv6_known_contents) []
                    (LOG INFO (Lines (content_lines contents)) []
                       (LOG INFO (Str ''skipping, content didnt match'') [] w)))))"

text \<open>
  The extraction of content lines as the specification words it: split, strip every line,
  then discard the lines that begin with the comment marker. It is compared with
  \<open>content_lines\<close>, which is the source's.
\<close>

definition spec_content_lines :: "string \<Rightarrow> string list" where
  "spec_content_lines contents =
     filter (\<lambda>l. \<not> startswith l ''#'') (map strip (splitlines contents))"

section \<open>The MTU hooks\<close>

definition dquote :: string where
  \<comment> \<open>the character \<open>"\<close>\<close>
  "dquote = [CHR 0x22]"

definition script :: "string list \<Rightarrow> string" where
  \<comment> \<open>a triple-quoted literal, given by its lines: each ends in a newline\<close>
  "script ls = concat (map (\<lambda>l. l @ ''\<newline>'') ls)"

definition IFUPDOWN_IPV6_MTU_PRE_HOOK :: string where
  "IFUPDOWN_IPV6_MTU_PRE_HOOK = script
     [''#!/bin/sh -x'',
      ''# injected by curtin installer'',
      '''',
      ''[ '' @ dquote @ ''$IFACE'' @ dquote @ '' != '' @ dquote @ ''lo'' @ dquote @ '' ] || exit 0'',
      '''',
      ''# Trigger only if MTU configured'',
      ''[ -n '' @ dquote @ ''$IF_MTU'' @ dquote @ '' ] || exit 0'',
      '''',
      ''CUR_DEV_MTU=$(/bin/cat /sys/class/net/$IFACE/mtu ||:)'',
      ''CUR_IPV6_MTU=$(sysctl -n net.ipv6.conf.$IFACE.mtu ||:)'',
      ''[ -n '' @ dquote @ ''$CUR_DEV_MTU'' @ dquote @ '' ] && echo $CUR_DEV_MTU > /run/network/$IFACE_dev.mtu'',
      ''[ -n '' @ dquote @ ''$CUR_IPV6_MTU'' @ dquote @ '' ] && echo $CUR_IPV6_MTU > /run/network/$IFACE_ipv6.mtu'',
      ''exit 0'']"

definition IFUPDOWN_IPV6_MTU_POST_HOOK :: string where
  "IFUPDOWN_IPV6_MTU_POST_HOOK = script
     [''#!/bin/sh -x'',
      ''# injected by curtin installer'',
      '''',
      ''[ '' @ dquote @ ''$IFACE'' @ dquote @ '' != '' @ dquote @ ''lo'' @ dquote @ '' ] || exit 0'',
      '''',
      ''# Trigger only if MTU configured'',
      ''[ -n '' @ dquote @ ''$IF_MTU'' @ dquote @ '' ] || exit 0'',
      '''',
      ''PRE_DEV_MTU=$(cat /run/network/$IFACE_dev.mtu)'',
      ''CUR_DEV_MTU=$(/bin/cat /sys/class/net/$IFACE/mtu)'',
      ''PRE_IPV6_MTU=$(cat /run/network/$IFACE_ipv6.mtu)'',
      ''CUR_IPV6_MTU=$(sysctl -n net.ipv6.conf.$IFACE.mtu)'',
      '''',
      ''if [ '' @ dquote @ ''$ADDRFAM'' @ dquote @ '' = '' @ dquote @ ''inet6'' @ dquote @ '' ]; then'',
      ''  # We need to check the underlying interface MTU and'',
      ''  # raise it if the IPV6 mtu is larger'',
      ''  if [ $CUR_DEV_MTU -lt $IF_MTU ]; then'',
      ''      /bin/ip link set $IFACE mtu $IF_MTU'',
      ''  fi'',
      ''  /sbin/sysctl -q -e -w net.ipv6.conf.$IFACE.mtu=$IF_MTU'',
      '''',
      ''elif [ '' @ dquote @ ''$ADDRFAM'' @ dquote @ '' = '' @ dquote @ ''inet'' @ dquote @ '' ]; then'',
      ''  # handle the clobber case where inet mtu changes v6 mtu'',
      ''  # ifupdown will already have set dev mtu, so lower mtu'',
      ''  # if needed.  If v6 mtu was larger, it get'' @ quote @ ''s clamped down'',
      ''  # to the dev MTU value.'',
      ''  if [ $PRE_IPV6_MTU -lt $CUR_IPV6_MTU ]; then'',
      ''    /sbin/sysctl -q -e -w net.ipv6.conf.$IFACE.mtu=$PRE_IPV6_MTU'',
      ''  fi'',
      ''fi'',
      ''exit 0'']"

definition executable_mode :: nat where
  \<comment> \<open>octal 755\<close>
  "executable_mode = 493"

fun install_hooks :: "string \<Rightarrow> (string \<times> string) list \<Rightarrow> world \<Rightarrow> (exn + unit) \<times> world" where
  \<comment> \<open>the loop \<open>for hook in ['prehook', 'posthook']\<close> over (file name, contents)\<close>
  "install_hooks target [] w = (Inr (), w)"
| "install_hooks target ((fn, contents) # hooks) w =
     (let cfg = join sep [target, fn];
          w1 = LOG INFO (Str ''Injecting fix for ipv6 mtu settings: %s'') [Str cfg] w
      in case write_file cfg contents executable_mode w1 of
           Inl e \<Rightarrow> (Inl e, w1)
         | Inr w2 \<Rightarrow> install_hooks target hooks w2)"

definition prehookfn_default :: string where
  "prehookfn_default = ''etc/network/if-pre-up.d/mtuipv6''"

definition posthookfn_default :: string where
  "posthookfn_default = ''etc/network/if-up.d/mtuipv6''"

definition patch_ifupdown_ipv6_mtu_hook ::
    "string \<Rightarrow> string \<Rightarrow> string \<Rightarrow> world \<Rightarrow> (exn + unit) \<times> world" where
  "patch_ifupdown_ipv6_mtu_hook target prehookfn posthookfn w =
     install_hooks target
       [(prehookfn, IFUPDOWN_IPV6_MTU_PRE_HOOK), (posthookfn, IFUPDOWN_IPV6_MTU_POST_HOOK)] w"

section \<open>Collaborators outside these sources\<close>

text \<open>
  \<open>curtin.net\<close>, \<open>curtin.util.get_package_version\<close> and \<open>curtin.config.value_as_boolean\<close>
  are parameters. A collaborator that fails raises an \<open>Exception\<close>; the resolver and the
  renderer may change the world, the version probe only reads it. The network model is
  opaque: a type variable.
\<close>

record 'ns collaborators =
  from_state_file :: "string \<Rightarrow> world \<Rightarrow> (exn + 'ns) \<times> world"
  parse_net_config :: "string \<Rightarrow> world \<Rightarrow> (exn + 'ns) \<times> world"
  render_network_state :: "string \<Rightarrow> 'ns \<Rightarrow> bool option \<Rightarrow> world \<Rightarrow> (exn + unit) \<times> world"
  get_package_version :: "string \<Rightarrow> string \<Rightarrow> world \<Rightarrow> exn + (string \<rightharpoonup> int) option"
  value_as_boolean :: "string \<Rightarrow> bool"

section \<open>The compatibility decision\<close>

definition subscript :: "(string \<rightharpoonup> int) \<Rightarrow> string \<Rightarrow> exn + int" where
  \<comment> \<open>\<open>d[k]\<close>\<close>
  "subscript d k = (case d k of None \<Rightarrow> Inl (KeyError k) | Some v \<Rightarrow> Inr v)"

definition detect_postup_alias_try ::
    "'ns collaborators \<Rightarrow> string \<Rightarrow> world \<Rightarrow> (exn + bool option) \<times> world" where
  \<comment> \<open>the body of the \<open>try\<close>: \<open>Inr (Some b)\<close> is \<open>return b\<close>, \<open>Inr None\<close> falls through\<close>
  "detect_postup_alias_try co target w =
     (let w1 = LOG INFO (Str ''Checking target for version of ifupdown package'') [] w in
      case get_package_version co ''ifupdown'' target w1 of
        Inl e \<Rightarrow> (Inl e, w1)
      | Inr None \<Rightarrow> (Inl (Exception ''Failed to get package version''), w1)
      | Inr (Some pkg_ver) \<Rightarrow>
          let w2 = LOG DEBUG (Str ''get_package_version:\<newline>%s'') [Dict pkg_ver] w1 in
          (case subscript pkg_ver ''semantic_version'' of
             Inl e \<Rightarrow> (Inl e, w2)
           | Inr sv \<Rightarrow>
          (case subscript pkg_ver ''major'' of
             Inl e \<Rightarrow> (Inl e, w2)
           | Inr major \<Rightarrow>
          (case subscript pkg_ver ''minor'' of
             Inl e \<Rightarrow> (Inl e, w2)
           | Inr minor \<Rightarrow>
          (case subscript pkg_ver ''micro'' of
             Inl e \<Rightarrow> (Inl e, w2)
           | Inr micro \<Rightarrow>
               let w3 = LOG DEBUG (Str ''ifupdown version is %s (major=%s minor=%s micro=%s)'')
                          [Num sv, Num major, Num minor, Num micro] w2
               in (case subscript pkg_ver ''semantic_version'' of
                     Inl e \<Rightarrow> (Inl e, w3)
                   | Inr sv' \<Rightarrow>
                       if sv' < 806 then (Inr (Some True), w3) else (Inr None, w3)))))))"

definition detect_postup_alias :: "'ns collaborators \<Rightarrow> string \<Rightarrow> world \<Rightarrow> bool \<times> world" where
  "detect_postup_alias co target w =
     (case detect_postup_alias_try co target w of
        (Inl e, w') \<Rightarrow>
          \<comment> \<open>\<open>except Exception\<close>, then the final \<open>return False\<close>\<close>
          (False, LOG WARN (Str ''Failed reading ifupdown pkg version (using defaults)'') [] w')
      | (Inr (Some b), w') \<Rightarrow> (b, w')
      | (Inr None, w') \<Rightarrow> (False, w'))"

section \<open>Applying the network configuration\<close>

definition resolve ::
    "'ns collaborators \<Rightarrow> string option \<Rightarrow> string option \<Rightarrow> world
       \<Rightarrow> (exn + 'ns option) \<times> world" where
  \<comment> \<open>the \<open>if network_state: ... elif network_config: ...\<close> of \<open>apply_net\<close>; \<open>Inr None\<close>:
      no branch ran and \<open>ns\<close> is unbound\<close>
  "resolve co network_state network_config w =
     (if truthy network_state then
        (case from_state_file co (the network_state) w of
           (Inl e, w') \<Rightarrow> (Inl e, w') | (Inr ns, w') \<Rightarrow> (Inr (Some ns), w'))
      else if truthy network_config then
        (case parse_net_config co (the network_config) w of
           (Inl e, w') \<Rightarrow> (Inl e, w') | (Inr ns, w') \<Rightarrow> (Inr (Some ns), w'))
      else (Inr None, w))"

definition apply_net ::
    "'ns collaborators \<Rightarrow> string option \<Rightarrow> string option \<Rightarrow> string option \<Rightarrow> bool option
       \<Rightarrow> world \<Rightarrow> (exn + unit) \<times> world" where
  "apply_net co target network_state network_config postup_alias w =
     (if network_state = None \<and> network_config = None then
        (let msg = ''Must provide at least config or state'' in
         (Inl (Exception msg), stderr_write (msg @ ''\<newline>'') w))
      else
        case target of
          None \<Rightarrow>
            (let msg = ''Must provide target'' in
             (Inl (Exception msg), stderr_write (msg @ ''\<newline>'') w))
        | Some tgt \<Rightarrow>
            (case resolve co network_state network_config w of
               (Inl e, w1) \<Rightarrow> (Inl e, w1)
             | (Inr None, w1) \<Rightarrow> (Inl (UnboundLocalError ''ns''), w1)
             | (Inr (Some ns), w1) \<Rightarrow>
                 (case render_network_state co tgt ns postup_alias w1 of
                    (Inl e, w2) \<Rightarrow> (Inl e, w2)
                  | (Inr u, w2) \<Rightarrow>
                      let w3 = maybe_remove_legacy_eth0 tgt eth0_default_path w2;
                          w4 = LOG INFO (Str ''Attempting to remove ipv6 privacy extensions'') [] w3
                      in (case disable_ipv6_privacy_extensions tgt ipv6_default_path w4 of
                            (Inl e, w5) \<Rightarrow> (Inl e, w5)
                          | (Inr u', w5) \<Rightarrow>
                              patch_ifupdown_ipv6_mtu_hook tgt prehookfn_default
                                posthookfn_default w5))))"

section \<open>The command line entry point\<close>

record args =
  arg_target :: "string option"
  arg_net_state :: "string option"
  arg_net_config :: "string option"
  arg_postup_alias :: "string option"

record command_environment =
  \<comment> \<open>the entries of \<open>util.load_command_environment()\<close> that \<open>apply_net_main\<close> reads\<close>
  env_target :: "string option"
  env_network_state :: "string option"
  env_network_config :: "string option"

definition apply_net_main ::
    "'ns collaborators \<Rightarrow> command_environment \<Rightarrow> args \<Rightarrow> world \<Rightarrow> int \<times> world" where
  \<comment> \<open>the result is the argument of the \<open>sys.exit\<close> that ends the call\<close>
  "apply_net_main co state0 args w =
     (let state1 = (case arg_target args of None \<Rightarrow> state0
                    | Some t \<Rightarrow> state0\<lparr>env_target := Some t\<rparr>);
          state2 = (case arg_net_state args of None \<Rightarrow> state1
                    | Some s \<Rightarrow> state1\<lparr>env_network_state := Some s\<rparr>);
          state = (case arg_net_config args of None \<Rightarrow> state2
                   | Some c \<Rightarrow> state2\<lparr>env_network_config := Some c\<rparr>)
      in
      case env_target state of
        None \<Rightarrow>
          (2, stderr_write (''Unable to find target.  ''
                              @ ''Use --target or set TARGET_MOUNT_POINT\<newline>'') w)
      | Some tgt \<Rightarrow>
          if \<not> truthy (env_network_config state) \<and> \<not> truthy (env_network_state state) then
            (2, stderr_write ''Must provide at least config or state\<newline>'' w)
          else
            let (postup_alias, w1) =
                  (case arg_postup_alias args of
                     Some a \<Rightarrow> (value_as_boolean co a, w)
                   | None \<Rightarrow> detect_postup_alias co tgt w);
                w2 = LOG INFO (Str ''Applying network configuration'') [] w1;
                w4 = (case apply_net co (env_target state) (env_network_state state)
                             (env_network_config state) (Some postup_alias) w2 of
                        (Inl e, w3) \<Rightarrow>
                          \<comment> \<open>\<open>except Exception: LOG.exception(...)\<close>\<close>
                          LOG ERROR (Str ''failed to apply network config'') [] w3
                      | (Inr u, w3) \<Rightarrow> w3)
            in (0, LOG INFO (Str ''Applied network configuration successfully'') [] w4))"

section \<open>Example targets\<close>

definition eth0_cfg :: string where
  "eth0_cfg = ''/target/etc/network/interfaces.d/eth0.cfg''"

definition ipv6_cfg :: string where
  "ipv6_cfg = ''/target/etc/sysctl.d/10-ipv6-privacy.conf''"

definition eth0_shipped :: string where
  "eth0_shipped = ''# The primary network interface\<newline>auto eth0\<newline>iface eth0 inet dhcp\<newline>''"

definition eth0_static :: string where
  "eth0_static = ''auto eth0\<newline>iface eth0 inet static\<newline>''"

definition ipv6_shipped :: string where
  "ipv6_shipped =
     ''net.ipv6.conf.all.use_tempaddr = 2\<newline>net.ipv6.conf.default.use_tempaddr = 2\<newline>''"

definition ipv6_custom :: string where
  "ipv6_custom = ''net.ipv6.conf.all.use_tempaddr = 0\<newline>''"

definition shipped_world :: world where
  \<comment> \<open>a target image that ships both legacy files with their known contents\<close>
  "shipped_world =
     \<lparr>files = [eth0_cfg \<mapsto> Regular eth0_shipped 420, ipv6_cfg \<mapsto> Regular ipv6_shipped 420],
      log = [], stderr = []\<rparr>"

definition custom_world :: world where
  \<comment> \<open>a target whose two files were edited by the user\<close>
  "custom_world =
     \<lparr>files = [eth0_cfg \<mapsto> Regular eth0_static 420, ipv6_cfg \<mapsto> Regular ipv6_custom 420],
      log = [], stderr = []\<rparr>"

definition trusty_ifupdown :: "string \<rightharpoonup> int" where
  \<comment> \<open>ifupdown 0.7.47, as in Trusty\<close>
  "trusty_ifupdown =
     [''major'' \<mapsto> 0, ''minor'' \<mapsto> 7, ''micro'' \<mapsto> 47, ''semantic_version'' \<mapsto> 747]"

definition xenial_ifupdown :: "string \<rightharpoonup> int" where
  \<comment> \<open>ifupdown 0.8.10\<close>
  "xenial_ifupdown =
     [''major'' \<mapsto> 0, ''minor'' \<mapsto> 8, ''micro'' \<mapsto> 10, ''semantic_version'' \<mapsto> 810]"

definition example_probe :: "string \<Rightarrow> string \<Rightarrow> world \<Rightarrow> exn + (string \<rightharpoonup> int) option" where
  "example_probe pkg target w =
     (if target = ''/trusty'' then Inr (Some trusty_ifupdown)
      else if target = ''/xenial'' then Inr (Some xenial_ifupdown)
      else if target = ''/target'' then Inr None
      else Inl (External ''dpkg-query''))"

definition example_collaborators :: "string collaborators" where
  \<comment> \<open>a resolver that fails on the path \<open>/missing\<close>, a renderer that writes the model to
      \<open>etc/network/interfaces\<close>\<close>
  "example_collaborators =
     \<lparr>from_state_file = (\<lambda>p w. if p = ''/missing'' then (Inl (External p), w)
                                 else (Inr (''state '' @ p), w)),
      parse_net_config = (\<lambda>p w. if p = ''/missing'' then (Inl (External p), w)
                                  else (Inr (''config '' @ p), w)),
      render_network_state = (\<lambda>t ns pa w.
         (Inr (), w\<lparr>files := (files w)(t @ ''/etc/network/interfaces'' \<mapsto> Regular ns 420)\<rparr>)),
      get_package_version = example_probe,
      value_as_boolean = (\<lambda>a. a \<notin> set [''0'', ''False'', ''false'', ''None'', ''none'', []])\<rparr>"

definition empty_world :: world where
  "empty_world = \<lparr>files = Map.empty, log = [], stderr = []\<rparr>"

definition no_environment :: command_environment where
  "no_environment = \<lparr>env_target = None, env_network_state = None, env_network_config = None\<rparr>"

definition failing_args :: args where
  \<comment> \<open>\<open>curtin apply_net --target /target --net-config /missing\<close>\<close>
  "failing_args =
     \<lparr>arg_target = Some ''/target'', arg_net_state = None, arg_net_config = Some ''/missing'',
      arg_postup_alias = None\<rparr>"

definition eth0_indented :: string where
  \<comment> \<open>the shipped eth0 file under a comment line that is indented by one space\<close>
  "eth0_indented = '' # note\<newline>auto eth0\<newline>iface eth0 inet dhcp\<newline>''"

definition indented_world :: world where
  "indented_world =
     \<lparr>files = [eth0_cfg \<mapsto> Regular eth0_indented 420], log = [], stderr = []\<rparr>"

section \<open>Content lines\<close>

lemma not_isspace_hash: "\<not> isspace CHR ''#''"
  by (simp add: isspace_def)

lemma startswith_hash: "startswith s ''#'' \<longleftrightarrow> (\<exists>r. s = CHR ''#'' # r)"
  by (cases s) (auto simp: startswith_def)

lemma dropWhile_snoc_keep: "\<not> P x \<Longrightarrow> dropWhile P (xs @ [x]) = dropWhile P xs @ [x]"
  by (induction xs) auto

lemma strip_hash: "strip (CHR ''#'' # r) = CHR ''#'' # rev (dropWhile isspace (rev r))"
  by (simp add: strip_def not_isspace_hash dropWhile_snoc_keep)

lemma startswith_strip: "startswith f ''#'' \<Longrightarrow> startswith (strip f) ''#''"
  by (auto simp: startswith_hash strip_hash)

lemma filter_spec_lines:
  "filter (\<lambda>l. \<not> startswith l ''#'') (map strip (filter (\<lambda>f. \<not> startswith f ''#'') xs))
     = filter (\<lambda>l. \<not> startswith l ''#'') (map strip xs)"
  by (induction xs) (auto dest: startswith_strip)

lemma spec_lines_of_content_lines:
  "spec_content_lines contents = filter (\<lambda>l. \<not> startswith l ''#'') (content_lines contents)"
  by (simp add: spec_content_lines_def content_lines_def filter_spec_lines)

lemma filter_same_iff: "xs = filter P xs \<longleftrightarrow> (\<forall>x \<in> set xs. P x)"
  by (metis filter_id_conv)

lemma content_lines_agree_iff:
  "content_lines contents = spec_content_lines contents
     \<longleftrightarrow> (\<forall>l \<in> set (content_lines contents). \<not> startswith l ''#'')"
  by (simp only: spec_lines_of_content_lines filter_same_iff)

lemma kept_comment_iff:
  "(\<forall>l \<in> set (content_lines contents). \<not> startswith l ''#'')
     \<longleftrightarrow> (\<forall>f \<in> set (splitlines contents). startswith (strip f) ''#'' \<longrightarrow> startswith f ''#'')"
  by (auto simp: content_lines_def)

text \<open>
  C5 (as stated, refuted). The claim strips every line first and then discards the lines
  that begin with \<open>#\<close>. The source tests the unstripped line: a comment line with
  whitespace before its \<open>#\<close> is kept, stripped. For the one-line file \<open> #x\<close> the source
  extracts the line \<open>#x\<close>, the claim none.
\<close>

theorem content_lines_counterexample:
  "content_lines '' #x'' = [''#x''] \<and> spec_content_lines '' #x'' = []
   \<and> content_lines '' #x'' \<noteq> spec_content_lines '' #x''"
  by (simp add: content_lines_def spec_content_lines_def splitlines_def startswith_def strip_def
      is_linebreak_def isspace_def)

text \<open>
  C5 (amended). The content lines are the file split into lines, every line whose
  unstripped text begins with \<open>#\<close> discarded, each remaining line stripped, in order.
  Hence the lines of the claim are the content lines without those that begin with \<open>#\<close>
  once stripped, and the two extractions agree exactly when no line of the file has
  whitespace before a leading \<open>#\<close>.
\<close>

theorem content_lines_amended:
  "content_lines contents = map strip (filter (\<lambda>f. \<not> startswith f ''#'') (splitlines contents))
   \<and> spec_content_lines contents
       = filter (\<lambda>l. \<not> startswith l ''#'') (content_lines contents)
   \<and> (content_lines contents = spec_content_lines contents
        \<longleftrightarrow> (\<forall>f \<in> set (splitlines contents).
               startswith (strip f) ''#'' \<longrightarrow> startswith f ''#''))"
  using spec_lines_of_content_lines [of contents] content_lines_agree_iff [of contents]
    kept_comment_iff [of contents]
  by (simp add: content_lines_def)

theorem content_lines_amended_witness:
  "content_lines ''#a\<newline> b '' = spec_content_lines ''#a\<newline> b ''
   \<and> spec_content_lines ''#a\<newline> b '' = [''b'']"
proof -
  have h: "\<forall>f \<in> set (splitlines ''#a\<newline> b '').
             startswith (strip f) ''#'' \<longrightarrow> startswith f ''#''"
    by (simp add: splitlines_def startswith_def strip_def is_linebreak_def isspace_def)
  have v: "spec_content_lines ''#a\<newline> b '' = [''b'']"
    by (simp add: spec_content_lines_def splitlines_def startswith_def strip_def
        is_linebreak_def isspace_def)
  from content_lines_amended [of "''#a\<newline> b ''"] h v show ?thesis
    by blast
qed

section \<open>The reconcilers, branch by branch\<close>

lemma content_lines_curtin_contents: "content_lines curtin_contents = []"
  by (simp add: content_lines_def curtin_contents_def splitlines_def startswith_def
      is_linebreak_def)

lemma curtin_contents_not_known: "content_lines curtin_contents \<noteq> ipv6_known_contents"
  by (simp add: content_lines_curtin_contents ipv6_known_contents_def)

lemma eth0_cases:
  "maybe_remove_legacy_eth0 target path w =
     (let cfg = normpath (join sep [target, path]) in
      case files w cfg of
        None \<Rightarrow> LOG WARN (Str ''Failed to find legacy conf file %s'') [Str cfg] w
      | Some Dir \<Rightarrow> LOG ERROR (Str (could_not_be_read_msg eth0_bmsg cfg)) [] w
      | Some (Regular c m) \<Rightarrow>
          if content_lines c = eth0_known_contents
          then LOG WARN (Str (removed_msg cfg)) [] (w\<lparr>files := (files w)(cfg := None)\<rparr>)
          else LOG WARN (Str (user_configured_msg eth0_bmsg cfg)) [] w)"
  by (simp add: maybe_remove_legacy_eth0_def Let_def path_exists_def load_file_def del_file_def
      split: option.splits node.splits)

lemma ipv6_cases:
  "\<not> startswith path ''/'' \<Longrightarrow> disable_ipv6_privacy_extensions target path w =
     (let cfg = normpath (join sep [target, path]) in
      case files w cfg of
        None \<Rightarrow> (Inr (), LOG WARN (Str ''Failed to find legacy conf file %s'') [Str cfg] w)
      | Some Dir \<Rightarrow> (Inr (), LOG ERROR (Str (could_not_be_read_msg ipv6_bmsg cfg)) [] w)
      | Some (Regular c m) \<Rightarrow>
          if content_lines c = ipv6_known_contents
          then (Inr (), (LOG INFO (Str ''deleting file: %s'') [Str cfg] w)
                  \<lparr>files := (files w)(cfg \<mapsto> Regular curtin_contents default_mode)\<rparr>)
          else (Inr (), LOG INFO (Lines ipv6_known_contents) []
                    (LOG INFO (Lines (content_lines c)) []
                       (LOG INFO (Str ''skipping, content didnt match'') [] w))))"
  by (simp add: disable_ipv6_privacy_extensions_def Let_def path_exists_def load_file_def
      del_file_def write_file_def LOG_def
      split: option.splits node.splits)

lemma ipv6_rejects_root_separator:
  "startswith path ''/'' \<Longrightarrow>
     \<exists>fmt. disable_ipv6_privacy_extensions target path w = (Inl (ValueError fmt path), w)"
  by (simp add: disable_ipv6_privacy_extensions_def)

lemma normpath_eth0_cfg: "normpath (join sep [''/target'', eth0_default_path]) = eth0_cfg"
  by (simp add: normpath_def sep_def eth0_default_path_def eth0_cfg_def startswith_def
      normpath_step_def Let_def)

lemma normpath_ipv6_cfg: "normpath (join sep [''/target'', ipv6_default_path]) = ipv6_cfg"
  by (simp add: normpath_def sep_def ipv6_default_path_def ipv6_cfg_def startswith_def
      normpath_step_def Let_def)

lemma content_lines_eth0_shipped: "content_lines eth0_shipped = eth0_known_contents"
  by (simp add: content_lines_def eth0_shipped_def eth0_known_contents_def splitlines_def
      startswith_def is_linebreak_def strip_def isspace_def)

lemma content_lines_ipv6_shipped: "content_lines ipv6_shipped = ipv6_known_contents"
  by (simp add: content_lines_def ipv6_shipped_def ipv6_known_contents_def splitlines_def
      startswith_def is_linebreak_def strip_def isspace_def)

lemma content_lines_eth0_static: "content_lines eth0_static = [''auto eth0'', ''iface eth0 inet static'']"
  by (simp add: content_lines_def eth0_static_def splitlines_def
      startswith_def is_linebreak_def strip_def isspace_def)

lemma content_lines_ipv6_custom: "content_lines ipv6_custom = [''net.ipv6.conf.all.use_tempaddr = 0'']"
  by (simp add: content_lines_def ipv6_custom_def splitlines_def
      startswith_def is_linebreak_def strip_def isspace_def)

lemma cfg_distinct: "eth0_cfg \<noteq> ipv6_cfg"
  by (simp add: eth0_cfg_def ipv6_cfg_def)

section \<open>Known contents are removed\<close>

lemma content_lines_eq_spec_iff:
  assumes "\<forall>l \<in> set K. \<not> startswith l ''#''"
  shows "content_lines c = K \<longleftrightarrow>
           spec_content_lines c = K
           \<and> (\<forall>f \<in> set (splitlines c). startswith (strip f) ''#'' \<longrightarrow> startswith f ''#'')"
proof
  assume k: "content_lines c = K"
  with assms have "\<forall>l \<in> set (content_lines c). \<not> startswith l ''#''" by simp
  then have "content_lines c = spec_content_lines c"
    and "\<forall>f \<in> set (splitlines c). startswith (strip f) ''#'' \<longrightarrow> startswith f ''#''"
    using content_lines_agree_iff [of c] kept_comment_iff [of c] by blast+
  with k show "spec_content_lines c = K
           \<and> (\<forall>f \<in> set (splitlines c). startswith (strip f) ''#'' \<longrightarrow> startswith f ''#'')"
    by simp
next
  assume a: "spec_content_lines c = K
           \<and> (\<forall>f \<in> set (splitlines c). startswith (strip f) ''#'' \<longrightarrow> startswith f ''#'')"
  then have "content_lines c = spec_content_lines c"
    using content_lines_agree_iff [of c] kept_comment_iff [of c] by blast
  with a show "content_lines c = K" by simp
qed

lemma eth0_known_no_comment: "\<forall>l \<in> set eth0_known_contents. \<not> startswith l ''#''"
  by (simp add: eth0_known_contents_def startswith_def)

lemma ipv6_known_no_comment: "\<forall>l \<in> set ipv6_known_contents. \<not> startswith l ''#''"
  by (simp add: ipv6_known_contents_def startswith_def)

lemma spec_lines_eth0_indented: "spec_content_lines eth0_indented = eth0_known_contents"
  by (simp add: spec_content_lines_def eth0_indented_def eth0_known_contents_def splitlines_def
      startswith_def is_linebreak_def strip_def isspace_def)

lemma content_lines_eth0_indented:
  "content_lines eth0_indented = [''# note'', ''auto eth0'', ''iface eth0 inet dhcp'']"
  by (simp add: content_lines_def eth0_indented_def splitlines_def
      startswith_def is_linebreak_def strip_def isspace_def)

text \<open>
  C3 (as stated, refuted). The claim takes the content lines modulo comment-line stripping
  and whitespace trim: every line stripped, then the comment lines discarded. The source
  tests the unstripped line. For the shipped eth0 file under the comment line \<open> # note\<close>,
  indented by one space, the lines of the claim are exactly the known contents, yet the
  eth0 reconciler finds different lines, warns of user configured content and keeps the
  file.
\<close>

theorem reconcile_known_contents_counterexample:
  "spec_content_lines eth0_indented = eth0_known_contents
   \<and> maybe_remove_legacy_eth0 ''/target'' eth0_default_path indented_world
       = indented_world\<lparr>log := [(WARN, Str (user_configured_msg eth0_bmsg eth0_cfg), [])]\<rparr>
   \<and> files (maybe_remove_legacy_eth0 ''/target'' eth0_default_path indented_world) eth0_cfg
       = Some (Regular eth0_indented 420)"
proof -
  have e: "files indented_world eth0_cfg = Some (Regular eth0_indented 420)"
    by (simp add: indented_world_def)
  have n: "content_lines eth0_indented \<noteq> eth0_known_contents"
    by (simp add: content_lines_eth0_indented eth0_known_contents_def)
  have "maybe_remove_legacy_eth0 ''/target'' eth0_default_path indented_world
       = indented_world\<lparr>log := [(WARN, Str (user_configured_msg eth0_bmsg eth0_cfg), [])]\<rparr>"
    by (simp add: eth0_cases normpath_eth0_cfg e n LOG_def Let_def del: join.simps)
       (simp add: indented_world_def)
  with e spec_lines_eth0_indented show ?thesis by simp
qed

text \<open>
  C3 (amended). A readable file whose content lines as the source extracts them (every
  line whose unstripped text begins with \<open>#\<close> discarded, each remaining line stripped)
  equal the known contents: the eth0 reconciler removes it and reports the removal (the
  outcome Removed is its warning \<open>removed ... with known contents\<close>); the IPv6 privacy
  reconciler, called with a relative path, reports the deletion (the outcome
  RemovedAndAnnotated is its record \<open>deleting file\<close>) and leaves at the same path a file
  holding exactly the annotation, which has four lines, all comments, and no executable
  bit. Nothing else changes. For either artifact the source's lines equal the known
  contents exactly when the lines of the claim do and no line of the file has whitespace
  before a leading \<open>#\<close>.
\<close>

theorem reconcile_known_contents:
  assumes "cfg = normpath (join sep [target, path])"
    and "files w cfg = Some (Regular c m)"
  shows "(content_lines c = eth0_known_contents \<longrightarrow>
            maybe_remove_legacy_eth0 target path w
              = w\<lparr>files := (files w)(cfg := None),
                   log := log w @ [(WARN, Str (removed_msg cfg), [])]\<rparr>)
       \<and> (\<not> startswith path ''/'' \<and> content_lines c = ipv6_known_contents \<longrightarrow>
            disable_ipv6_privacy_extensions target path w
              = (Inr (),
                 w\<lparr>files := (files w)(cfg \<mapsto> Regular curtin_contents default_mode),
                    log := log w @ [(INFO, Str ''deleting file: %s'', [Str cfg])]\<rparr>))
       \<and> splitlines curtin_contents
            = [''# IPv6 Privacy Extensions (RFC 4941)'', ''# Disabled by curtin'',
               ''# net.ipv6.conf.all.use_tempaddr = 2'',
               ''# net.ipv6.conf.default.use_tempaddr = 2'']
       \<and> (content_lines c = eth0_known_contents \<longleftrightarrow>
            spec_content_lines c = eth0_known_contents
            \<and> (\<forall>f \<in> set (splitlines c). startswith (strip f) ''#'' \<longrightarrow> startswith f ''#''))
       \<and> (content_lines c = ipv6_known_contents \<longleftrightarrow>
            spec_content_lines c = ipv6_known_contents
            \<and> (\<forall>f \<in> set (splitlines c). startswith (strip f) ''#'' \<longrightarrow> startswith f ''#''))"
proof (intro conjI impI)
  assume "content_lines c = eth0_known_contents"
  with assms show "maybe_remove_legacy_eth0 target path w
      = w\<lparr>files := (files w)(cfg := None), log := log w @ [(WARN, Str (removed_msg cfg), [])]\<rparr>"
    by (simp add: eth0_cases LOG_def Let_def)
next
  assume "\<not> startswith path ''/'' \<and> content_lines c = ipv6_known_contents"
  with assms show "disable_ipv6_privacy_extensions target path w
      = (Inr (),
         w\<lparr>files := (files w)(cfg \<mapsto> Regular curtin_contents default_mode),
            log := log w @ [(INFO, Str ''deleting file: %s'', [Str cfg])]\<rparr>)"
    by (simp add: ipv6_cases LOG_def Let_def)
next
  show "splitlines curtin_contents
      = [''# IPv6 Privacy Extensions (RFC 4941)'', ''# Disabled by curtin'',
         ''# net.ipv6.conf.all.use_tempaddr = 2'', ''# net.ipv6.conf.default.use_tempaddr = 2'']"
    by (simp add: curtin_contents_def splitlines_def is_linebreak_def)
next
  show "content_lines c = eth0_known_contents \<longleftrightarrow>
          spec_content_lines c = eth0_known_contents
          \<and> (\<forall>f \<in> set (splitlines c). startswith (strip f) ''#'' \<longrightarrow> startswith f ''#'')"
    by (rule content_lines_eq_spec_iff [OF eth0_known_no_comment])
next
  show "content_lines c = ipv6_known_contents \<longleftrightarrow>
          spec_content_lines c = ipv6_known_contents
          \<and> (\<forall>f \<in> set (splitlines c). startswith (strip f) ''#'' \<longrightarrow> startswith f ''#'')"
    by (rule content_lines_eq_spec_iff [OF ipv6_known_no_comment])
qed

theorem reconcile_known_contents_witness:
  "files (maybe_remove_legacy_eth0 ''/target'' eth0_default_path shipped_world) eth0_cfg = None
   \<and> log (maybe_remove_legacy_eth0 ''/target'' eth0_default_path shipped_world)
       = [(WARN, Str (removed_msg eth0_cfg), [])]
   \<and> fst (disable_ipv6_privacy_extensions ''/target'' ipv6_default_path shipped_world) = Inr ()
   \<and> files (snd (disable_ipv6_privacy_extensions ''/target'' ipv6_default_path shipped_world))
         ipv6_cfg = Some (Regular curtin_contents 420)
   \<and> log (snd (disable_ipv6_privacy_extensions ''/target'' ipv6_default_path shipped_world))
       = [(INFO, Str ''deleting file: %s'', [Str ipv6_cfg])]
   \<and> spec_content_lines eth0_shipped = eth0_known_contents
   \<and> spec_content_lines ipv6_shipped = ipv6_known_contents"
proof -
  have e: "files shipped_world eth0_cfg = Some (Regular eth0_shipped 420)"
    by (simp add: shipped_world_def cfg_distinct)
  have i: "files shipped_world ipv6_cfg = Some (Regular ipv6_shipped 420)"
    by (simp add: shipped_world_def)
  have r: "\<not> startswith ipv6_default_path ''/''"
    by (simp add: startswith_def ipv6_default_path_def)
  note te = reconcile_known_contents [OF normpath_eth0_cfg [symmetric] e]
  note ti = reconcile_known_contents [OF normpath_ipv6_cfg [symmetric] i]
  have se: "spec_content_lines eth0_shipped = eth0_known_contents"
    using te content_lines_eth0_shipped by blast
  have si: "spec_content_lines ipv6_shipped = ipv6_known_contents"
    using ti content_lines_ipv6_shipped by blast
  from te [THEN conjunct1] ti [THEN conjunct2, THEN conjunct1]
    content_lines_eth0_shipped content_lines_ipv6_shipped r se si
  show ?thesis
    by (simp add: shipped_world_def default_mode_def)
qed

section \<open>User content is preserved\<close>

text \<open>
  C4. A readable file whose content lines differ from the known contents: each reconciler
  (the IPv6 one called with a relative path) only appends its log records for the mismatch
  (the outcome Preserved), so the file, and every other file, is as before.
\<close>

theorem reconcile_mismatch_preserves:
  assumes "cfg = normpath (join sep [target, path])"
    and "files w cfg = Some (Regular c m)"
  shows "(content_lines c \<noteq> eth0_known_contents \<longrightarrow>
            maybe_remove_legacy_eth0 target path w
              = w\<lparr>log := log w @ [(WARN, Str (user_configured_msg eth0_bmsg cfg), [])]\<rparr>
            \<and> files (maybe_remove_legacy_eth0 target path w) = files w)
       \<and> (\<not> startswith path ''/'' \<and> content_lines c \<noteq> ipv6_known_contents \<longrightarrow>
            disable_ipv6_privacy_extensions target path w
              = (Inr (),
                 w\<lparr>log := log w @ [(INFO, Str ''skipping, content didnt match'', []),
                                      (INFO, Lines (content_lines c), []),
                                      (INFO, Lines ipv6_known_contents, [])]\<rparr>)
            \<and> files (snd (disable_ipv6_privacy_extensions target path w)) = files w)"
  using assms by (simp add: eth0_cases ipv6_cases LOG_def Let_def)

theorem reconcile_mismatch_preserves_witness:
  "maybe_remove_legacy_eth0 ''/target'' eth0_default_path custom_world
     = custom_world\<lparr>log := [(WARN, Str (user_configured_msg eth0_bmsg eth0_cfg), [])]\<rparr>
   \<and> files (maybe_remove_legacy_eth0 ''/target'' eth0_default_path custom_world) eth0_cfg
       = Some (Regular eth0_static 420)
   \<and> disable_ipv6_privacy_extensions ''/target'' ipv6_default_path custom_world
       = (Inr (),
          custom_world\<lparr>log := [(INFO, Str ''skipping, content didnt match'', []),
                                (INFO, Lines [''net.ipv6.conf.all.use_tempaddr = 0''], []),
                                (INFO, Lines ipv6_known_contents, [])]\<rparr>)"
proof -
  have e: "files custom_world eth0_cfg = Some (Regular eth0_static 420)"
    by (simp add: custom_world_def cfg_distinct)
  have i: "files custom_world ipv6_cfg = Some (Regular ipv6_custom 420)"
    by (simp add: custom_world_def)
  have r: "\<not> startswith ipv6_default_path ''/''"
    by (simp add: startswith_def ipv6_default_path_def)
  have ne: "content_lines eth0_static \<noteq> eth0_known_contents"
    by (simp add: content_lines_eth0_static eth0_known_contents_def)
  have ni: "content_lines ipv6_custom \<noteq> ipv6_known_contents"
    by (simp add: content_lines_ipv6_custom ipv6_known_contents_def)
  from reconcile_mismatch_preserves [OF normpath_eth0_cfg [symmetric] e]
    reconcile_mismatch_preserves [OF normpath_ipv6_cfg [symmetric] i]
    ne ni r e
  show ?thesis
    by (simp add: custom_world_def content_lines_ipv6_custom)
qed

section \<open>Reconciling twice\<close>

text \<open>
  C6. For every target, path and initial world, each reconciler run a second time leaves
  the files of the first run as they are, and the IPv6 reconciler ends the second run the
  way it ended the first (normally, or with the same rejection of the path). The
  annotation written by the first run has no content line, so the second run takes the
  mismatch branch.
\<close>

theorem reconcile_idempotent:
  "files (maybe_remove_legacy_eth0 target path (maybe_remove_legacy_eth0 target path w))
     = files (maybe_remove_legacy_eth0 target path w)
   \<and> files (snd (disable_ipv6_privacy_extensions target path
                   (snd (disable_ipv6_privacy_extensions target path w))))
     = files (snd (disable_ipv6_privacy_extensions target path w))
   \<and> fst (disable_ipv6_privacy_extensions target path
             (snd (disable_ipv6_privacy_extensions target path w)))
     = fst (disable_ipv6_privacy_extensions target path w)"
proof (intro conjI)
  show "files (maybe_remove_legacy_eth0 target path (maybe_remove_legacy_eth0 target path w))
     = files (maybe_remove_legacy_eth0 target path w)"
    by (simp add: eth0_cases Let_def LOG_def split: option.splits node.splits)
next
  show "files (snd (disable_ipv6_privacy_extensions target path
                   (snd (disable_ipv6_privacy_extensions target path w))))
     = files (snd (disable_ipv6_privacy_extensions target path w))"
  proof (cases "startswith path ''/''")
    case True
    then show ?thesis by (simp add: disable_ipv6_privacy_extensions_def)
  next
    case False
    then show ?thesis
      by (simp add: ipv6_cases Let_def LOG_def curtin_contents_not_known
          split: option.splits node.splits)
  qed
next
  show "fst (disable_ipv6_privacy_extensions target path
             (snd (disable_ipv6_privacy_extensions target path w)))
     = fst (disable_ipv6_privacy_extensions target path w)"
  proof (cases "startswith path ''/''")
    case True
    then show ?thesis by (simp add: disable_ipv6_privacy_extensions_def)
  next
    case False
    then show ?thesis
      by (simp add: ipv6_cases Let_def LOG_def curtin_contents_not_known
          split: option.splits node.splits)
  qed
qed

section \<open>Paths that begin with the root separator\<close>

text \<open>
  C2 (the source departs from the claim at one of the two call sites). The IPv6 privacy
  reconciler rejects a path that begins with \<open>/\<close> before it looks at the filesystem. The
  eth0 reconciler has no such check: given \<open>/etc/network/interfaces.d/eth0.cfg\<close> it joins
  the path to the target, finds the shipped file and removes it.
\<close>

theorem eth0_accepts_root_separator:
  "startswith ''/etc/network/interfaces.d/eth0.cfg'' ''/''
   \<and> maybe_remove_legacy_eth0 ''/target'' ''/etc/network/interfaces.d/eth0.cfg'' shipped_world
       = shipped_world\<lparr>files := (files shipped_world)(eth0_cfg := None),
                         log := [(WARN, Str (removed_msg eth0_cfg), [])]\<rparr>
   \<and> disable_ipv6_privacy_extensions ''/target'' ''/etc/sysctl.d/10-ipv6-privacy.conf''
         shipped_world
       = (Inl (ValueError (''path parameter must not start with '' @ quote @ ''/'' @ quote
                             @ '': %s'') ''/etc/sysctl.d/10-ipv6-privacy.conf''),
          shipped_world)"
proof -
  have n: "normpath (join sep [''/target'', ''/etc/network/interfaces.d/eth0.cfg'']) = eth0_cfg"
    by (simp add: normpath_def sep_def eth0_cfg_def startswith_def normpath_step_def Let_def)
  have e: "files shipped_world eth0_cfg = Some (Regular eth0_shipped 420)"
    by (simp add: shipped_world_def cfg_distinct)
  have "maybe_remove_legacy_eth0 ''/target'' ''/etc/network/interfaces.d/eth0.cfg'' shipped_world
       = shipped_world\<lparr>files := (files shipped_world)(eth0_cfg := None),
                         log := [(WARN, Str (removed_msg eth0_cfg), [])]\<rparr>"
    by (simp add: eth0_cases n e content_lines_eth0_shipped LOG_def Let_def del: join.simps)
       (simp add: shipped_world_def)
  then show ?thesis
    by (simp add: disable_ipv6_privacy_extensions_def startswith_def)
qed

section \<open>The compatibility decision never fails\<close>

lemma detect_postup_alias_unfold:
  "fst (detect_postup_alias co target w) =
     (case get_package_version co ''ifupdown'' target
             (LOG INFO (Str ''Checking target for version of ifupdown package'') [] w) of
        Inl e \<Rightarrow> False
      | Inr None \<Rightarrow> False
      | Inr (Some v) \<Rightarrow>
          (case v ''semantic_version'' of
             None \<Rightarrow> False
           | Some s \<Rightarrow> v ''major'' \<noteq> None \<and> v ''minor'' \<noteq> None \<and> v ''micro'' \<noteq> None
                        \<and> s < 806))"
  by (simp add: detect_postup_alias_def detect_postup_alias_try_def subscript_def Let_def
      split: sum.splits option.splits)

text \<open>
  C7. \<open>detect_postup_alias\<close> is total: every exception of its body is caught and answered
  with \<open>False\<close>. When the probe returns a version with its four fields, the answer is
  whether the semantic version is below 806; when the probe raises, returns no data, or
  returns a version that lacks a field, the answer is \<open>False\<close>.
\<close>

theorem detect_postup_alias_decides:
  assumes "p = get_package_version co ''ifupdown'' target
                 (LOG INFO (Str ''Checking target for version of ifupdown package'') [] w)"
  shows "(p = Inr (Some v) \<and> v ''semantic_version'' = Some s \<and> v ''major'' \<noteq> None
            \<and> v ''minor'' \<noteq> None \<and> v ''micro'' \<noteq> None
          \<longrightarrow> fst (detect_postup_alias co target w) = (s < 806))
       \<and> (p = Inl e \<or> p = Inr None
            \<or> (p = Inr (Some v) \<and> (v ''semantic_version'' = None \<or> v ''major'' = None
                                     \<or> v ''minor'' = None \<or> v ''micro'' = None))
          \<longrightarrow> fst (detect_postup_alias co target w) = False)
       \<and> (fst (detect_postup_alias_try co target w) = Inl e
          \<longrightarrow> fst (detect_postup_alias co target w) = False)"
proof (intro conjI impI)
  assume "p = Inr (Some v) \<and> v ''semantic_version'' = Some s \<and> v ''major'' \<noteq> None
            \<and> v ''minor'' \<noteq> None \<and> v ''micro'' \<noteq> None"
  with assms [symmetric] show "fst (detect_postup_alias co target w) = (s < 806)"
    by (auto simp: detect_postup_alias_unfold)
next
  assume "p = Inl e \<or> p = Inr None
            \<or> (p = Inr (Some v) \<and> (v ''semantic_version'' = None \<or> v ''major'' = None
                                     \<or> v ''minor'' = None \<or> v ''micro'' = None))"
  with assms [symmetric] show "fst (detect_postup_alias co target w) = False"
    by (auto simp: detect_postup_alias_unfold split: option.splits)
next
  assume "fst (detect_postup_alias_try co target w) = Inl e"
  then show "fst (detect_postup_alias co target w) = False"
    by (cases "detect_postup_alias_try co target w") (simp add: detect_postup_alias_def)
qed

theorem detect_postup_alias_decides_witness:
  "fst (detect_postup_alias example_collaborators ''/trusty'' empty_world) = True
   \<and> fst (detect_postup_alias example_collaborators ''/xenial'' empty_world) = False
   \<and> fst (detect_postup_alias example_collaborators ''/target'' empty_world) = False
   \<and> fst (detect_postup_alias example_collaborators ''/nowhere'' empty_world) = False
   \<and> fst (detect_postup_alias_try example_collaborators ''/target'' empty_world)
       = Inl (Exception ''Failed to get package version'')"
proof -
  have t: "get_package_version example_collaborators ''ifupdown'' ''/trusty'' w
             = Inr (Some trusty_ifupdown)" for w
    by (simp add: example_collaborators_def example_probe_def)
  have x: "get_package_version example_collaborators ''ifupdown'' ''/xenial'' w
             = Inr (Some xenial_ifupdown)" for w
    by (simp add: example_collaborators_def example_probe_def)
  have n: "get_package_version example_collaborators ''ifupdown'' ''/target'' w = Inr None" for w
    by (simp add: example_collaborators_def example_probe_def)
  have r: "get_package_version example_collaborators ''ifupdown'' ''/nowhere'' w
             = Inl (External ''dpkg-query'')" for w
    by (simp add: example_collaborators_def example_probe_def)
  have b: "fst (detect_postup_alias_try example_collaborators ''/target'' empty_world)
             = Inl (Exception ''Failed to get package version'')"
    by (simp add: detect_postup_alias_try_def n Let_def)
  from detect_postup_alias_decides [OF t [symmetric], of trusty_ifupdown 747]
    detect_postup_alias_decides [OF x [symmetric], of xenial_ifupdown 810]
    detect_postup_alias_decides [OF n [symmetric]]
    detect_postup_alias_decides [OF r [symmetric], of _ _ _ "External ''dpkg-query''"]
    b
  show ?thesis
    by (simp add: trusty_ifupdown_def xenial_ifupdown_def)
qed

section \<open>Resolving the network model\<close>

text \<open>
  C8. With neither a state file nor a configuration, \<open>apply_net\<close> raises its
  missing-input exception at once: whatever the collaborators are, the only effect is the
  message on standard error, so no resolver and no renderer has run and the target's files
  and the log are as before.
\<close>

theorem apply_net_missing_input:
  "apply_net co target None None postup_alias w
     = (Inl (Exception ''Must provide at least config or state''),
        w\<lparr>stderr := stderr w @ ''Must provide at least config or state\<newline>''\<rparr>)"
  by (simp add: apply_net_def stderr_write_def)

text \<open>
  C9. Called with a target, a state argument that is not \<open>None\<close> but falsy (the empty
  string) and no configuration, \<open>apply_net\<close> passes the missing-input check, runs neither
  resolution branch and fails when the render call reads the unbound \<open>ns\<close>; nothing has
  been written by then.
\<close>

theorem apply_net_falsy_state_unbound:
  assumes "network_state \<noteq> None" and "\<not> truthy network_state"
  shows "resolve co network_state None w = (Inr None, w)
       \<and> apply_net co (Some tgt) network_state None postup_alias w
           = (Inl (UnboundLocalError ''ns''), w)"
  using assms by (simp add: apply_net_def resolve_def truthy_def)

theorem apply_net_falsy_state_unbound_witness:
  "apply_net example_collaborators (Some ''/target'') (Some []) None None shipped_world
     = (Inl (UnboundLocalError ''ns''), shipped_world)"
proof -
  have "Some ([] :: string) \<noteq> None" and "\<not> truthy (Some [])"
    by (simp_all add: truthy_def)
  from apply_net_falsy_state_unbound [OF this,
      where co = example_collaborators and w = shipped_world and tgt = "''/target''"
        and postup_alias = None]
  show ?thesis
    by simp
qed

lemma LOG_files: "files (LOG lv msg args w) = files w"
  by (simp add: LOG_def)

lemma eth0_frame:
  "p \<noteq> normpath (join sep [target, path]) \<Longrightarrow>
     files (maybe_remove_legacy_eth0 target path w) p = files w p"
  by (simp add: eth0_cases Let_def LOG_def split: option.splits node.splits)

lemma ipv6_frame:
  "p \<noteq> normpath (join sep [target, path]) \<Longrightarrow>
     files (snd (disable_ipv6_privacy_extensions target path w)) p = files w p"
proof (cases "startswith path ''/''")
  case True
  then show ?thesis by (simp add: disable_ipv6_privacy_extensions_def)
next
  case False
  assume "p \<noteq> normpath (join sep [target, path])"
  with False show ?thesis
    by (simp add: ipv6_cases Let_def LOG_def split: option.splits node.splits)
qed

lemma ipv6_relative_returns:
  "\<not> startswith path ''/'' \<Longrightarrow> fst (disable_ipv6_privacy_extensions target path w) = Inr ()"
  by (simp add: ipv6_cases Let_def split: option.splits node.splits)

lemma hooks_installed:
  assumes "files w (join sep [target, pre]) = None" and "files w (join sep [target, post]) = None"
  shows "fst (patch_ifupdown_ipv6_mtu_hook target pre post w) = Inr ()"
    and "p \<noteq> join sep [target, pre] \<Longrightarrow> p \<noteq> join sep [target, post] \<Longrightarrow>
           files (snd (patch_ifupdown_ipv6_mtu_hook target pre post w)) p = files w p"
  using assms
  by (simp_all add: patch_ifupdown_ipv6_mtu_hook_def write_file_def LOG_def Let_def)


lemma example_paths_distinct:
  "''/target/etc/network/interfaces'' \<noteq> eth0_cfg"
  "''/target/etc/network/interfaces'' \<noteq> ipv6_cfg"
  "''/target/etc/network/interfaces'' \<noteq> join sep [''/target'', prehookfn_default]"
  "''/target/etc/network/interfaces'' \<noteq> join sep [''/target'', posthookfn_default]"
  "join sep [''/target'', prehookfn_default] \<noteq> eth0_cfg"
  "join sep [''/target'', prehookfn_default] \<noteq> ipv6_cfg"
  "join sep [''/target'', posthookfn_default] \<noteq> eth0_cfg"
  "join sep [''/target'', posthookfn_default] \<noteq> ipv6_cfg"
  by (simp_all add: eth0_cfg_def ipv6_cfg_def sep_def prehookfn_default_def
      posthookfn_default_def)

text \<open>
  C10. When both arguments are truthy the model comes from the state file: resolution is
  the result of \<open>from_state_file\<close>; \<open>apply_net\<close> behaves the same whatever the
  configuration argument is and whatever \<open>parse_net_config\<close> would do, so the
  configuration is never read; and \<open>apply_net\<close> hands the model that \<open>from_state_file\<close>
  returned to the renderer, then reconciles the two legacy files and installs the hooks.
\<close>

theorem apply_net_state_takes_precedence:
  assumes "truthy (Some state_path)" and "truthy network_config"
  shows "resolve co (Some state_path) network_config w
           = (case from_state_file co state_path w of
                (Inl e, w') \<Rightarrow> (Inl e, w')
              | (Inr ns, w') \<Rightarrow> (Inr (Some ns), w'))
       \<and> apply_net co target (Some state_path) network_config postup_alias w
           = apply_net (co\<lparr>parse_net_config := f\<rparr>) target (Some state_path) other_config
               postup_alias w
       \<and> apply_net co (Some tgt) (Some state_path) network_config postup_alias w
           = (case from_state_file co state_path w of
                (Inl e, w1) \<Rightarrow> (Inl e, w1)
              | (Inr ns, w1) \<Rightarrow>
                  (case render_network_state co tgt ns postup_alias w1 of
                     (Inl e, w2) \<Rightarrow> (Inl e, w2)
                   | (Inr u, w2) \<Rightarrow>
                       (case disable_ipv6_privacy_extensions tgt ipv6_default_path
                               (LOG INFO (Str ''Attempting to remove ipv6 privacy extensions'') []
                                  (maybe_remove_legacy_eth0 tgt eth0_default_path w2)) of
                          (Inl e, w5) \<Rightarrow> (Inl e, w5)
                        | (Inr u', w5) \<Rightarrow>
                            patch_ifupdown_ipv6_mtu_hook tgt prehookfn_default
                              posthookfn_default w5)))"
proof -
  have r: "resolve co' (Some state_path) c w
             = (case from_state_file co' state_path w of
                  (Inl e, w') \<Rightarrow> (Inl e, w')
                | (Inr ns, w') \<Rightarrow> (Inr (Some ns), w'))" for co' :: "'a collaborators" and c
    using assms(1) by (simp add: resolve_def)
  have inv: "apply_net co target (Some state_path) network_config postup_alias w
           = apply_net (co\<lparr>parse_net_config := f\<rparr>) target (Some state_path) other_config
               postup_alias w"
    by (cases target)
       (simp_all add: apply_net_def r split: prod.splits sum.splits option.splits)
  have run: "apply_net co (Some tgt) (Some state_path) network_config postup_alias w
           = (case from_state_file co state_path w of
                (Inl e, w1) \<Rightarrow> (Inl e, w1)
              | (Inr ns, w1) \<Rightarrow>
                  (case render_network_state co tgt ns postup_alias w1 of
                     (Inl e, w2) \<Rightarrow> (Inl e, w2)
                   | (Inr u, w2) \<Rightarrow>
                       (case disable_ipv6_privacy_extensions tgt ipv6_default_path
                               (LOG INFO (Str ''Attempting to remove ipv6 privacy extensions'') []
                                  (maybe_remove_legacy_eth0 tgt eth0_default_path w2)) of
                          (Inl e, w5) \<Rightarrow> (Inl e, w5)
                        | (Inr u', w5) \<Rightarrow>
                            patch_ifupdown_ipv6_mtu_hook tgt prehookfn_default
                              posthookfn_default w5)))"
    by (simp add: apply_net_def r Let_def split: prod.splits sum.splits option.splits)
  from r inv run show ?thesis by blast
qed


theorem apply_net_state_takes_precedence_witness:
  "fst (apply_net example_collaborators (Some ''/target'') (Some ''/state'') (Some ''/config'')
          None shipped_world) = Inr ()
   \<and> files (snd (apply_net example_collaborators (Some ''/target'') (Some ''/state'')
                   (Some ''/config'') None shipped_world)) ''/target/etc/network/interfaces''
       = Some (Regular ''state /state'' 420)
   \<and> resolve example_collaborators (Some ''/state'') (Some ''/config'') shipped_world
       = (Inr (Some ''state /state''), shipped_world)
   \<and> apply_net example_collaborators (Some ''/target'') (Some ''/state'') (Some ''/config'')
         None shipped_world
       = apply_net (example_collaborators\<lparr>parse_net_config := (\<lambda>p w. (Inl (External p), w))\<rparr>)
           (Some ''/target'') (Some ''/state'') (Some ''/missing'') None shipped_world"
proof -
  define w2 where "w2 = shipped_world\<lparr>files := (files shipped_world)
                  (''/target/etc/network/interfaces'' \<mapsto> Regular ''state /state'' 420)\<rparr>"
  define w4 where "w4 = LOG INFO (Str ''Attempting to remove ipv6 privacy extensions'') []
                          (maybe_remove_legacy_eth0 ''/target'' eth0_default_path w2)"
  define r5 where "r5 = disable_ipv6_privacy_extensions ''/target'' ipv6_default_path w4"
  have t: "truthy (Some ''/state'')" and c: "truthy (Some ''/config'')"
    by (simp_all add: truthy_def)
  have f: "from_state_file example_collaborators ''/state'' shipped_world
             = (Inr ''state /state'', shipped_world)"
    by (simp add: example_collaborators_def)
  have rn: "render_network_state example_collaborators ''/target'' ''state /state'' None
              shipped_world = (Inr (), w2)"
    by (simp add: example_collaborators_def w2_def)
  have rel: "\<not> startswith ipv6_default_path ''/''"
    by (simp add: startswith_def ipv6_default_path_def)
  have r5: "r5 = (Inr (), snd r5)"
    using ipv6_relative_returns [OF rel, of "''/target''" w4]
    by (cases r5) (simp add: r5_def)
  have run: "apply_net example_collaborators (Some ''/target'') (Some ''/state'')
               (Some ''/config'') None shipped_world
             = patch_ifupdown_ipv6_mtu_hook ''/target'' prehookfn_default posthookfn_default
                 (snd r5)"
    using apply_net_state_takes_precedence [OF t c,
        where co = example_collaborators and w = shipped_world and tgt = "''/target''"
          and postup_alias = None, THEN conjunct2, THEN conjunct2] r5
    by (simp add: f rn w4_def [symmetric] r5_def [symmetric] split: prod.splits)
  have keep: "files (snd r5) p = files w2 p" if "p \<noteq> eth0_cfg" and "p \<noteq> ipv6_cfg" for p
    using that
    by (simp add: r5_def w4_def ipv6_frame eth0_frame LOG_files normpath_eth0_cfg
        normpath_ipv6_cfg del: join.simps)
  have pre: "files (snd r5) (join sep [''/target'', prehookfn_default]) = None"
    and post: "files (snd r5) (join sep [''/target'', posthookfn_default]) = None"
    using example_paths_distinct
    by (simp_all add: keep w2_def shipped_world_def del: join.simps)
  have i: "files (snd r5) ''/target/etc/network/interfaces'' = Some (Regular ''state /state'' 420)"
    by (simp add: keep example_paths_distinct w2_def)
  have res: "resolve example_collaborators (Some ''/state'') (Some ''/config'') shipped_world
               = (Inr (Some ''state /state''), shipped_world)"
    using apply_net_state_takes_precedence [OF t c,
        where co = example_collaborators and w = shipped_world, THEN conjunct1]
    by (simp add: f)
  have inv: "apply_net example_collaborators (Some ''/target'') (Some ''/state'')
               (Some ''/config'') None shipped_world
             = apply_net
                 (example_collaborators\<lparr>parse_net_config := (\<lambda>p w. (Inl (External p), w))\<rparr>)
                 (Some ''/target'') (Some ''/state'') (Some ''/missing'') None shipped_world"
    by (rule apply_net_state_takes_precedence [OF t c, THEN conjunct2, THEN conjunct1])
  have out: "fst (apply_net example_collaborators (Some ''/target'') (Some ''/state'')
                    (Some ''/config'') None shipped_world) = Inr ()
             \<and> files (snd (apply_net example_collaborators (Some ''/target'') (Some ''/state'')
                    (Some ''/config'') None shipped_world)) ''/target/etc/network/interfaces''
                 = Some (Regular ''state /state'' 420)"
    using hooks_installed(1) [OF pre post]
      hooks_installed(2) [OF pre post example_paths_distinct(3) example_paths_distinct(4)] i
    by (simp only: run)
  from out res inv show ?thesis
    by blast
qed

section \<open>The exit code\<close>

lemma apply_net_aborts_on_resolution_failure:
  assumes "network_state \<noteq> None \<or> network_config \<noteq> None"
    and "resolve co network_state network_config w = (Inl e, w1)"
  shows "apply_net co (Some tgt) network_state network_config postup_alias w = (Inl e, w1)"
  using assms by (auto simp: apply_net_def)

lemma apply_net_aborts_on_render_failure:
  assumes "network_state \<noteq> None \<or> network_config \<noteq> None"
    and "resolve co network_state network_config w = (Inr (Some ns), w1)"
    and "render_network_state co tgt ns postup_alias w1 = (Inl e, w2)"
  shows "apply_net co (Some tgt) network_state network_config postup_alias w = (Inl e, w2)"
  using assms by (auto simp: apply_net_def)

lemma apply_net_main_exit_code:
  "fst (apply_net_main co state0 args w) = 0 \<or> fst (apply_net_main co state0 args w) = 2"
  by (simp add: apply_net_main_def Let_def split: option.splits prod.splits sum.splits)

lemma apply_net_main_swallows:
  assumes "arg_target args = Some tgt" and "truthy (arg_net_config args)"
  shows "fst (apply_net_main co state0 args w) = 0"
  using assms
  by (auto simp: apply_net_main_def Let_def truthy_def split: option.splits prod.splits sum.splits)

text \<open>
  C1 (the source departs from the claim). A failure of resolution or rendering does abort
  \<open>apply_net\<close>, but \<open>apply_net_main\<close> catches the exception, logs it, goes on to log
  success and exits with code 0. Here the configuration file cannot be parsed: the call of
  \<open>apply_net\<close> raises, and the command exits 0 with both records in its log.
\<close>

theorem apply_net_main_exits_zero_on_failure:
  "fst (apply_net example_collaborators (Some ''/target'') None (Some ''/missing'') (Some False)
          empty_world) = Inl (External ''/missing'')
   \<and> apply_net_main example_collaborators no_environment failing_args empty_world
       = (0, \<lparr>files = Map.empty,
              log = [(INFO, Str ''Checking target for version of ifupdown package'', []),
                     (WARN, Str ''Failed reading ifupdown pkg version (using defaults)'', []),
                     (INFO, Str ''Applying network configuration'', []),
                     (ERROR, Str ''failed to apply network config'', []),
                     (INFO, Str ''Applied network configuration successfully'', [])],
              stderr = []\<rparr>)"
  by (simp add: apply_net_main_def apply_net_def resolve_def truthy_def Let_def
      detect_postup_alias_def detect_postup_alias_try_def example_collaborators_def
      example_probe_def failing_args_def no_environment_def empty_world_def LOG_def)

end
